theory Spec2Isabelle
  imports Main
begin

section \<open>Data model (EthereumProviderTypes)\<close>

text \<open>
  Values that cross the RPC boundary are untyped at run time (\<open>Promise<unknown>\<close>), so
  they are modelled as a datatype of JavaScript values. Numbers are restricted to
  integers; functions, symbols and big integers do not occur.
\<close>

datatype jsval =
    JUndefined
  | JNull
  | JBool bool
  | JNum int
  | JStr string
  | JArr "jsval list"
  | JObj "(string \<times> jsval) list"

text \<open>A promise that has settled: fulfilled with a value or rejected with a reason.\<close>

datatype 'a settled = Fulfilled 'a | Rejected jsval

record EIP6963ProviderInfo =
  walletId :: string
  uuid :: string
  name :: string
  icon :: string

text \<open>The argument of \<open>request\<close>: \<open>{ method: string; params?: Array<unknown> }\<close>, the
  field \<open>method\<close> under the name \<open>method'\<close>.\<close>

record request_args =
  method' :: string
  params :: "jsval list option"

text \<open>
  An EIP-1193 provider is an external object. Only its \<open>request\<close> entry point is used
  by the program; the optional members \<open>isStatus\<close>, \<open>host\<close>, \<open>path\<close>, \<open>sendAsync\<close> and
  \<open>send\<close> are never read. The wallet extension behind it has state of its own, of type
  \<open>'x\<close>: a request reads and updates that state and settles.
\<close>

record 'x EIP1193Provider =
  request :: "request_args \<Rightarrow> 'x \<Rightarrow> jsval settled \<times> 'x"

record 'x EIP6963ProviderDetail =
  info :: EIP6963ProviderInfo
  provider :: "'x EIP1193Provider"

record 'x EIP6963AnnounceProviderEvent =
  detail :: "'x EIP6963ProviderDetail"

section \<open>The store\<close>

text \<open>
  The subscriber callback \<open>() => void\<close> is opaque to the store: it is identified by a
  number, each invocation is recorded, and it is taken to return without touching the
  store. A listener is one \<open>onAnnouncement\<close> closure: its identity as a function
  object and the callback it captured.
\<close>

type_synonym callback = nat
type_synonym listener = "nat \<times> callback"

text \<open>
  The state the store code reads and writes: the module variable \<open>providers\<close>, and of
  \<open>window\<close> the registered listeners by event type, in registration order. \<open>closures\<close>
  counts the \<open>onAnnouncement\<close> function objects created so far, \<open>dispatched\<close> records the
  types of the events the program dispatched, \<open>invoked\<close> the callbacks it called.
\<close>

record 'x page =
  providers :: "'x EIP6963ProviderDetail list"
  listeners :: "(string \<times> listener) list"
  closures :: nat
  dispatched :: "string list"
  invoked :: "callback list"

text \<open>\<open>let providers = []\<close> at module load; nothing registered, dispatched or called.\<close>

definition initial :: "'x page" where
  "initial = \<lparr>providers = [], listeners = [], closures = 0, dispatched = [], invoked = []\<rparr>"

definition store_value :: "'x page \<Rightarrow> 'x EIP6963ProviderDetail list" where
  "store_value w = providers w"

text \<open>
  \<open>window.addEventListener\<close> ignores a listener that is already registered for the
  type; \<open>window.removeEventListener\<close> removes it if present.
\<close>

definition addEventListener :: "string \<Rightarrow> listener \<Rightarrow> 'x page \<Rightarrow> 'x page" where
  "addEventListener ty l w =
     (if (ty, l) \<in> set (listeners w) then w
      else w\<lparr>listeners := listeners w @ [(ty, l)]\<rparr>)"

definition removeEventListener :: "string \<Rightarrow> listener \<Rightarrow> 'x page \<Rightarrow> 'x page" where
  "removeEventListener ty l w = w\<lparr>listeners := filter (\<lambda>r. r \<noteq> (ty, l)) (listeners w)\<rparr>"

text \<open>
  \<open>window.dispatchEvent(new Event(ty))\<close> as the program calls it, for a type whose
  listeners belong to the wallet extensions: the broadcast is recorded. The wallets'
  answers are announcement events, delivered by \<open>announce\<close> below.
\<close>

definition dispatchEvent :: "string \<Rightarrow> 'x page \<Rightarrow> 'x page" where
  "dispatchEvent ty w = w\<lparr>dispatched := dispatched w @ [ty]\<rparr>"

text \<open>
  The listener of \<open>store.subscribe\<close>; \<open>providers.some(...)\<close> is \<open>list_ex\<close>.
\<close>

definition onAnnouncement ::
  "callback \<Rightarrow> 'x EIP6963AnnounceProviderEvent \<Rightarrow> 'x page \<Rightarrow> 'x page" where
  "onAnnouncement cb event w =
     (if list_ex (\<lambda>p. uuid (info p) = uuid (info (detail event))) (providers w) then w
      else (let w' = w\<lparr>providers := providers w @ [detail event]\<rparr>
            in w'\<lparr>invoked := invoked w' @ [cb]\<rparr>))"

text \<open>
  \<open>store.subscribe\<close>: a fresh \<open>onAnnouncement\<close> closure is registered, the request
  broadcast is dispatched, and the function that removes the closure is returned.
\<close>

definition subscribe :: "callback \<Rightarrow> 'x page \<Rightarrow> ('x page \<Rightarrow> 'x page) \<times> 'x page" where
  "subscribe cb w =
     (let l = (closures w, cb);
          w1 = w\<lparr>closures := Suc (closures w)\<rparr>;
          w2 = addEventListener ''eip6963:announceProvider'' l w1;
          w3 = dispatchEvent ''eip6963:requestProvider'' w2
      in (removeEventListener ''eip6963:announceProvider'' l, w3))"

text \<open>
  An \<open>eip6963:announceProvider\<close> event dispatched on \<open>window\<close> by a wallet: every
  listener registered for that type runs, in registration order.
\<close>

definition deliver ::
  "'x EIP6963AnnounceProviderEvent \<Rightarrow> (string \<times> listener) \<Rightarrow> 'x page \<Rightarrow> 'x page" where
  "deliver event r w =
     (if fst r = ''eip6963:announceProvider'' then onAnnouncement (snd (snd r)) event w else w)"

definition announce :: "'x EIP6963AnnounceProviderEvent \<Rightarrow> 'x page \<Rightarrow> 'x page" where
  "announce event w = fold (deliver event) (listeners w) w"

definition announce_all :: "'x EIP6963AnnounceProviderEvent list \<Rightarrow> 'x page \<Rightarrow> 'x page" where
  "announce_all events w = fold announce events w"

text \<open>
  What can happen to the store: a subscription, the clean-up of a subscription (the
  function \<open>subscribe\<close> returned for that closure), or an announcement.
\<close>

datatype 'x action =
    Subscribe callback
  | Unsubscribe listener
  | Announce "'x EIP6963AnnounceProviderEvent"

fun step :: "'x action \<Rightarrow> 'x page \<Rightarrow> 'x page" where
  "step (Subscribe cb) w = snd (subscribe cb w)"
| "step (Unsubscribe l) w = removeEventListener ''eip6963:announceProvider'' l w"
| "step (Announce event) w = announce event w"

definition run :: "'x action list \<Rightarrow> 'x page \<Rightarrow> 'x page" where
  "run acts w = fold step acts w"

text \<open>The number of subscriptions made by a sequence of actions.\<close>

fun subscriptions :: "'x action list \<Rightarrow> nat" where
  "subscriptions [] = 0"
| "subscriptions (Subscribe cb # acts) = Suc (subscriptions acts)"
| "subscriptions (a # acts) = subscriptions acts"

text \<open>The identifiers held by a collection, and whether a page has a live subscription.\<close>

definition uuids :: "'x EIP6963ProviderDetail list \<Rightarrow> string list" where
  "uuids ps = map (\<lambda>p. uuid (info p)) ps"

definition subscribed :: "'x page \<Rightarrow> bool" where
  "subscribed w = list_ex (\<lambda>r. fst r = ''eip6963:announceProvider'') (listeners w)"

text \<open>
  The identifiers of a sequence in first-seen order: each kept where it first occurs.
\<close>

fun first_seen :: "'a list \<Rightarrow> 'a list" where
  "first_seen [] = []"
| "first_seen (x # xs) = x # first_seen (filter (\<lambda>y. y \<noteq> x) xs)"

text \<open>
  First announcement wins, as a function of the announcements alone: the detail of each
  announcement that is the first of its uuid, in order; every later announcement of a
  uuid is dropped, whatever it carries.
\<close>

fun first_announced ::
  "'x EIP6963AnnounceProviderEvent list \<Rightarrow> 'x EIP6963ProviderDetail list" where
  "first_announced [] = []"
| "first_announced (e # es) =
     detail e #
     first_announced (filter (\<lambda>e'. uuid (info (detail e')) \<noteq> uuid (info (detail e))) es)"

section \<open>The component\<close>

text \<open>Truthiness, \<open>v[0]\<close> and \<open>typeof v\<close> of a JavaScript value.\<close>

fun truthy :: "jsval \<Rightarrow> bool" where
  "truthy JUndefined = False"
| "truthy JNull = False"
| "truthy (JBool b) = b"
| "truthy (JNum n) = (n \<noteq> 0)"
| "truthy (JStr s) = (s \<noteq> [])"
| "truthy (JArr vs) = True"
| "truthy (JObj kvs) = True"

text \<open>
  Reading index 0: of an array its first element, of a string its first character, of
  an object its property \<open>"0"\<close>; anything absent reads as \<open>undefined\<close>. The program reads
  the index only of a truthy value, so \<open>undefined\<close> and \<open>null\<close> (where JavaScript would
  throw) are never indexed.
\<close>

fun index0 :: "jsval \<Rightarrow> jsval" where
  "index0 (JArr []) = JUndefined"
| "index0 (JArr (v # vs)) = v"
| "index0 (JStr []) = JUndefined"
| "index0 (JStr (c # cs)) = JStr [c]"
| "index0 (JObj kvs) = (case map_of kvs ''0'' of None \<Rightarrow> JUndefined | Some v \<Rightarrow> v)"
| "index0 v = JUndefined"

fun typeof :: "jsval \<Rightarrow> string" where
  "typeof JUndefined = ''undefined''"
| "typeof JNull = ''object''"
| "typeof (JBool b) = ''boolean''"
| "typeof (JNum n) = ''number''"
| "typeof (JStr s) = ''string''"
| "typeof (JArr vs) = ''object''"
| "typeof (JObj kvs) = ''object''"

text \<open>One call of \<open>console.error\<close> or \<open>console.log\<close>, with its arguments.\<close>

datatype console_entry = ConsoleError "jsval list" | ConsoleLog "jsval list"

text \<open>
  \<open>promise.catch(console.error)\<close>, awaited: a fulfilled promise gives its value; a
  rejected one has its reason logged and gives \<open>undefined\<close>, the result of
  \<open>console.error\<close>.
\<close>

definition catch_console_error ::
  "jsval settled \<Rightarrow> console_entry list \<Rightarrow> jsval \<times> console_entry list" where
  "catch_console_error r con =
     (case r of Fulfilled v \<Rightarrow> (v, con) | Rejected e \<Rightarrow> (JUndefined, con @ [ConsoleError [e]]))"

text \<open>
  The state of the component \<open>WalletProviders\<close> and of what it touches: its two state
  variables, the console, and the state of the wallet extension. The state setters
  take effect in the returned state. \<open>userAccount\<close> is declared a string; it holds
  whatever value \<open>accounts[0]\<close> was. What the component renders is not modelled.
\<close>

record 'x app =
  selectedWallet :: "'x EIP6963ProviderDetail option"
  userAccount :: jsval
  console :: "console_entry list"
  wallet :: 'x

definition mounted :: "'x \<Rightarrow> 'x app" where
  "mounted x = \<lparr>selectedWallet = None, userAccount = JStr [], console = [], wallet = x\<rparr>"

definition isConnected :: "'x app \<Rightarrow> bool" where
  "isConnected a = (selectedWallet a \<noteq> None \<and> truthy (userAccount a))"

text \<open>The typed data of \<open>produceTypedDataPayload\<close>, as \<open>JSON.stringify\<close> prints it.\<close>

definition typed_data :: string where
  \<open>typed_data = ''{"types":{"EIP712Domain":[{"name":"name","type":"string"},{"name":"version","type":"string"},{"name":"chainId","type":"uint256"},{"name":"verifyingContract","type":"address"}],"Person":[{"name":"name","type":"string"},{"name":"wallet","type":"address"}],"Mail":[{"name":"from","type":"Person"},{"name":"to","type":"Person"},{"name":"contents","type":"string"}]},"primaryType":"Mail","domain":{"name":"Ether Mail","version":"1","chainId":1,"verifyingContract":"0xCcCCccccCCCCcCCCCCCcCcCccCcCCCcCcccccccC"},"message":{"from":{"name":"Cow","wallet":"0xCD2a3d9F938E13CD947Ec05AbC7FE734Df8DD826"},"to":{"name":"Bob","wallet":"0xbBbBBBBbbBBBbbbBbbBbbbbBBbBbbbbBbBbbBBbB"},"contents":"Hello, Bob!"}}''\<close>

definition produceTypedDataPayload :: "jsval \<Rightarrow> request_args" where
  "produceTypedDataPayload address =
     \<lparr>method' = ''eth_signTypedData_v4'', params = Some [address, JStr typed_data]\<rparr>"

text \<open>
  An async function runs to the promise it returns, here already settled, and the
  state it leaves. Between two of its awaits nothing else is taken to run.
\<close>

definition handleConnect :: "'x EIP6963ProviderDetail \<Rightarrow> 'x app \<Rightarrow> unit settled \<times> 'x app" where
  "handleConnect providerWithInfo a =
     (let (r, x) = request (provider providerWithInfo)
                     \<lparr>method' = ''eth_requestAccounts'', params = None\<rparr> (wallet a);
          (accounts, con) = catch_console_error r (console a);
          a1 = a\<lparr>console := con, wallet := x\<rparr>
      in if truthy accounts \<and> truthy (index0 accounts)
         then (Fulfilled (),
               a1\<lparr>selectedWallet := Some providerWithInfo, userAccount := index0 accounts\<rparr>)
         else (Fulfilled (), a1))"

text \<open>
  The function the effect hands to \<open>setInterval\<close>, with the \<open>selectedWallet\<close> and
  \<open>userAccount\<close> it captured. A rejected await leaves the function at once, and the
  promise it returns is rejected with the same reason.
\<close>

definition interval_callback ::
  "'x EIP6963ProviderDetail \<Rightarrow> jsval \<Rightarrow> 'x app \<Rightarrow> unit settled \<times> 'x app" where
  "interval_callback sw account a =
     (case request (provider sw) \<lparr>method' = ''eth_chainId'', params = None\<rparr> (wallet a) of
        (Rejected e, x1) \<Rightarrow> (Rejected e, a\<lparr>wallet := x1\<rparr>)
      | (Fulfilled chainId, x1) \<Rightarrow>
          (case request (provider sw)
                  \<lparr>method' = ''wallet_getCapabilities'', params = Some [account]\<rparr> x1 of
             (Rejected e, x2) \<Rightarrow> (Rejected e, a\<lparr>wallet := x2\<rparr>)
           | (Fulfilled capabilities, x2) \<Rightarrow>
               (Fulfilled (),
                a\<lparr>console := console a @
                     [ConsoleLog
                        [JStr ''%c[Wallet Debug] Effect run:'',
                         JStr ''color: white; background: #0070f3; font-weight: bold; padding: 2px 6px; border-radius: 3px;'',
                         JObj [(''chainId'', chainId), (''capabilities'', capabilities)]]],
                   wallet := x2\<rparr>)))"

text \<open>
  The effect: nothing while not connected, otherwise the function it installs to run
  every 5 seconds.
\<close>

definition useEffect_interval :: "'x app \<Rightarrow> ('x app \<Rightarrow> unit settled \<times> 'x app) option" where
  "useEffect_interval a =
     (case (isConnected a, selectedWallet a) of
        (True, Some sw) \<Rightarrow> Some (interval_callback sw (userAccount a))
      | _ \<Rightarrow> None)"

definition signMessages :: "'x app \<Rightarrow> unit settled \<times> 'x app" where
  "signMessages a =
     (case (isConnected a, selectedWallet a) of
        (True, Some sw) \<Rightarrow>
          (let (r1, x1) = request (provider sw) (produceTypedDataPayload (userAccount a)) (wallet a);
               (signature1, con1) = catch_console_error r1 (console a);
               (r2, x2) = request (provider sw) (produceTypedDataPayload (userAccount a)) x1;
               (signature2, con2) = catch_console_error r2 con1
           in (Fulfilled (),
               a\<lparr>console := con2 @
                    [ConsoleLog
                       [JStr ''%c[Wallet Debug] Signatures:'',
                        JStr ''color: white; background: #e67e22; font-weight: bold; padding: 2px 6px; border-radius: 3px;'',
                        JObj [(''signature1'', signature1), (''signature2'', signature2),
                              (''typeofSignature1'', JStr (typeof signature1)),
                              (''typeofSignature2'', JStr (typeof signature2))]]],
                  wallet := x2\<rparr>))
      | _ \<Rightarrow> (Fulfilled (), a))"

section \<open>Example inputs\<close>

text \<open>
  Wallets with no state of their own: one that rejects every request, one that answers
  every request with the same value, and one that answers \<open>eth_chainId\<close> only.
\<close>

definition rejecting :: "unit EIP1193Provider" where
  "rejecting = \<lparr>request = (\<lambda>args x. (Rejected (JStr ''denied''), x))\<rparr>"

definition answering :: "jsval \<Rightarrow> unit EIP1193Provider" where
  "answering v = \<lparr>request = (\<lambda>args x. (Fulfilled v, x))\<rparr>"

definition chain_only :: "unit EIP1193Provider" where
  "chain_only =
     \<lparr>request = (\<lambda>args x. if method' args = ''eth_chainId'' then (Fulfilled (JStr ''0x1''), x)
                           else (Rejected (JStr ''unsupported''), x))\<rparr>"

definition announcement ::
  "string \<Rightarrow> string \<Rightarrow> unit EIP1193Provider \<Rightarrow> unit EIP6963AnnounceProviderEvent" where
  "announcement u n p =
     \<lparr>detail = \<lparr>info = \<lparr>walletId = ''ledger'', uuid = u, name = n, icon = ''icon.svg''\<rparr>,
                provider = p\<rparr>\<rparr>"

text \<open>A component connected to the wallet of an announcement, with account \<open>0xabc\<close>.\<close>

definition connected :: "unit EIP6963AnnounceProviderEvent \<Rightarrow> unit app" where
  "connected event =
     \<lparr>selectedWallet = Some (detail event), userAccount = JStr ''0xabc'', console = [],
      wallet = ()\<rparr>"

section \<open>Properties of the store\<close>

lemma seen_iff: "list_ex (\<lambda>p. uuid (info p) = u) ps = (u \<in> set (uuids ps))"
  by (auto simp: list_ex_iff uuids_def)

lemma uuids_Nil: "uuids [] = []"
  by (simp add: uuids_def)

lemma uuids_snoc: "uuids (ps @ [p]) = uuids ps @ [uuid (info p)]"
  by (simp add: uuids_def)

lemma uuids_append: "uuids (ps @ qs) = uuids ps @ uuids qs"
  by (simp add: uuids_def)

lemma onAnnouncement_seen:
  "uuid (info (detail e)) \<in> set (uuids (providers w)) \<Longrightarrow> onAnnouncement cb e w = w"
  by (simp add: onAnnouncement_def seen_iff)

lemma onAnnouncement_new:
  "uuid (info (detail e)) \<notin> set (uuids (providers w)) \<Longrightarrow>
   onAnnouncement cb e w = w\<lparr>providers := providers w @ [detail e], invoked := invoked w @ [cb]\<rparr>"
  by (simp add: onAnnouncement_def seen_iff Let_def)

lemma onAnnouncement_known:
  "uuid (info (detail e)) \<in> set (uuids (providers (onAnnouncement cb e w)))"
  by (cases "uuid (info (detail e)) \<in> set (uuids (providers w))")
     (simp_all add: onAnnouncement_seen onAnnouncement_new uuids_def)

lemma deliver_seen:
  "uuid (info (detail e)) \<in> set (uuids (providers w)) \<Longrightarrow> deliver e r w = w"
  by (simp add: deliver_def onAnnouncement_seen)

lemma fold_deliver_seen:
  "uuid (info (detail e)) \<in> set (uuids (providers w)) \<Longrightarrow> fold (deliver e) rs w = w"
  by (induction rs) (simp_all add: deliver_seen)

lemma fold_deliver:
  "fold (deliver e) rs w =
     (case find (\<lambda>r. fst r = ''eip6963:announceProvider'') rs of
        None \<Rightarrow> w
      | Some r \<Rightarrow> onAnnouncement (snd (snd r)) e w)"
proof (induction rs)
  case Nil
  then show ?case by simp
next
  case (Cons r rs)
  show ?case
  proof (cases "fst r = ''eip6963:announceProvider''")
    case True
    then have "deliver e r w = onAnnouncement (snd (snd r)) e w"
      by (simp add: deliver_def)
    with True show ?thesis
      by (simp add: fold_deliver_seen onAnnouncement_known)
  next
    case False
    then have "deliver e r w = w"
      by (simp add: deliver_def)
    with False Cons show ?thesis by simp
  qed
qed

lemma announce_eq:
  "announce e w =
     (case find (\<lambda>r. fst r = ''eip6963:announceProvider'') (listeners w) of
        None \<Rightarrow> w
      | Some r \<Rightarrow> onAnnouncement (snd (snd r)) e w)"
  by (simp add: announce_def fold_deliver)

lemma subscribed_find:
  "subscribed w = (find (\<lambda>r. fst r = ''eip6963:announceProvider'') (listeners w) \<noteq> None)"
  by (simp add: subscribed_def list_ex_iff find_None_iff Bex_def)

lemma announce_seen:
  "uuid (info (detail e)) \<in> set (uuids (providers w)) \<Longrightarrow> announce e w = w"
  by (simp add: announce_eq onAnnouncement_seen split: option.split)

lemma unsubscribed_find:
  "\<not> subscribed w \<Longrightarrow> find (\<lambda>r. fst r = ''eip6963:announceProvider'') (listeners w) = None"
  by (simp add: subscribed_def list_ex_iff find_None_iff Bex_def)

lemma announce_unsubscribed: "\<not> subscribed w \<Longrightarrow> announce e w = w"
  by (simp add: announce_eq unsubscribed_find)

lemma announce_providers:
  "providers (announce e w) =
     (if subscribed w \<and> uuid (info (detail e)) \<notin> set (uuids (providers w))
      then providers w @ [detail e] else providers w)"
proof (cases "find (\<lambda>r. fst r = ''eip6963:announceProvider'') (listeners w)")
  case None
  then show ?thesis by (simp add: announce_eq subscribed_find)
next
  case (Some r)
  then show ?thesis
    by (simp add: announce_eq subscribed_find onAnnouncement_seen onAnnouncement_new)
qed

lemma announce_listeners: "listeners (announce e w) = listeners w"
  by (auto simp: announce_eq onAnnouncement_def Let_def split: option.split)

lemma announce_dispatched: "dispatched (announce e w) = dispatched w"
  by (auto simp: announce_eq onAnnouncement_def Let_def split: option.split)

lemma announce_subscribed: "subscribed (announce e w) = subscribed w"
  by (simp add: subscribed_def announce_listeners)

lemma announce_all_listeners: "listeners (announce_all es w) = listeners w"
  by (induction es arbitrary: w) (simp_all add: announce_all_def announce_listeners)

lemma announce_all_unsubscribed: "\<not> subscribed w \<Longrightarrow> announce_all es w = w"
  by (induction es) (simp_all add: announce_all_def announce_unsubscribed)

lemma distinct_first_seen: "distinct (first_seen xs)" and set_first_seen: "set (first_seen xs) = set xs"
  by (induction xs rule: first_seen.induct) auto

lemma uuids_announce_all:
  "subscribed w \<Longrightarrow>
   uuids (providers (announce_all es w)) =
     uuids (providers w) @
     first_seen (filter (\<lambda>u. u \<notin> set (uuids (providers w))) (map (\<lambda>e. uuid (info (detail e))) es))"
proof (induction es arbitrary: w)
  case Nil
  then show ?case by (simp add: announce_all_def)
next
  case (Cons e es)
  have step: "announce_all (e # es) w = announce_all es (announce e w)"
    by (simp add: announce_all_def)
  from Cons.prems have sub: "subscribed (announce e w)"
    by (simp add: announce_subscribed)
  show ?case
  proof (cases "uuid (info (detail e)) \<in> set (uuids (providers w))")
    case True
    with Cons.prems Cons.IH [OF sub] show ?thesis
      by (simp add: step announce_seen)
  next
    case False
    with Cons.prems have "uuids (providers (announce e w)) = uuids (providers w) @ [uuid (info (detail e))]"
      by (simp add: announce_providers uuids_def)
    with False Cons.IH [OF sub] show ?thesis
      by (simp add: step conj_commute)
  qed
qed

text \<open>
  Claim C1. Whatever announcements are delivered while a listener is subscribed,
  starting from the empty collection, the collection holds exactly one entry for each
  distinct uuid announced, in the order in which the uuids were first announced. The
  example is the scenario A, A again, B, which gives the collection A, B.
\<close>

theorem first_seen_order:
  assumes "subscribed w" and "providers w = []"
  shows "distinct (uuids (store_value (announce_all es w))) \<and>
         set (uuids (store_value (announce_all es w))) = set (map (\<lambda>e. uuid (info (detail e))) es) \<and>
         uuids (store_value (announce_all es w)) = first_seen (map (\<lambda>e. uuid (info (detail e))) es)"
proof -
  from assms have "uuids (store_value (announce_all es w)) = first_seen (map (\<lambda>e. uuid (info (detail e))) es)"
    by (simp add: store_value_def uuids_announce_all uuids_Nil)
  then show ?thesis
    by (simp only: distinct_first_seen set_first_seen simp_thms)
qed

theorem first_seen_order_witness:
  "subscribed (snd (subscribe 0 initial)) \<and> providers (snd (subscribe 0 initial)) = [] \<and>
   store_value
     (announce_all [announcement ''1'' ''A'' rejecting, announcement ''1'' ''A'' rejecting,
                    announcement ''2'' ''B'' rejecting]
        (snd (subscribe 0 initial))) =
     [detail (announcement ''1'' ''A'' rejecting), detail (announcement ''2'' ''B'' rejecting)] \<and>
   uuids (store_value
     (announce_all [announcement ''1'' ''A'' rejecting, announcement ''1'' ''A'' rejecting,
                    announcement ''2'' ''B'' rejecting]
        (snd (subscribe 0 initial)))) = [''1'', ''2'']"
  using first_seen_order [of "snd (subscribe 0 initial)"
      "[announcement ''1'' ''A'' rejecting, announcement ''1'' ''A'' rejecting,
        announcement ''2'' ''B'' rejecting]"]
  by (simp add: subscribe_def initial_def addEventListener_def dispatchEvent_def subscribed_def
      announce_all_def announce_def deliver_def onAnnouncement_def announcement_def
      store_value_def uuids_def Let_def)

text \<open>
  Claim C2. An announcement whose uuid is already in the collection changes nothing:
  the page after the event is the page before it, so no entry is added, removed,
  replaced or moved. Delivering an announcement twice gives what delivering it once
  gives.
\<close>

theorem reannouncement_unchanged:
  "(uuid (info (detail e)) \<in> set (uuids (providers w)) \<longrightarrow>
      announce e w = w \<and> store_value (announce e w) = store_value w) \<and>
   announce e (announce e w) = announce e w"
proof -
  have twice: "announce e (announce e w) = announce e w"
  proof (cases "find (\<lambda>r. fst r = ''eip6963:announceProvider'') (listeners w)")
    case None
    then show ?thesis by (simp add: announce_eq)
  next
    case (Some r)
    then have "announce e w = onAnnouncement (snd (snd r)) e w"
      by (simp add: announce_eq)
    then show ?thesis
      by (simp add: announce_seen onAnnouncement_known)
  qed
  show ?thesis
    by (simp add: twice announce_seen)
qed

theorem reannouncement_unchanged_witness:
  "uuid (info (detail (announcement ''1'' ''B'' (answering JNull)))) \<in>
     set (uuids (providers (announce (announcement ''1'' ''A'' rejecting) (snd (subscribe 0 initial))))) \<and>
   store_value (announce (announcement ''1'' ''B'' (answering JNull))
      (announce (announcement ''1'' ''A'' rejecting) (snd (subscribe 0 initial)))) =
     [detail (announcement ''1'' ''A'' rejecting)]"
  using reannouncement_unchanged [of "announcement ''1'' ''B'' (answering JNull)"
      "announce (announcement ''1'' ''A'' rejecting) (snd (subscribe 0 initial))"]
  by (simp add: subscribe_def initial_def addEventListener_def dispatchEvent_def
      announce_def deliver_def onAnnouncement_def announcement_def
      store_value_def uuids_def Let_def)

lemma subscribe_listeners:
  "\<not> subscribed w \<Longrightarrow>
   listeners (snd (subscribe cb w)) =
     listeners w @ [(''eip6963:announceProvider'', closures w, cb)]"
  by (auto simp: subscribe_def Let_def addEventListener_def dispatchEvent_def subscribed_def
      list_ex_iff)

lemma subscribe_unsubscribe:
  "fst (subscribe cb w) = removeEventListener ''eip6963:announceProvider'' (closures w, cb)"
  by (simp add: subscribe_def Let_def)

lemma filter_unsubscribed:
  "\<not> list_ex (\<lambda>r. fst r = ty) rs \<Longrightarrow> filter (\<lambda>r. r \<noteq> (ty, l)) rs = rs"
  by (induction rs) auto

text \<open>
  Claim C3. When the subscription is the only live one, then after its unsubscribe
  function has run no later announcement changes the collection: \<open>store.value\<close> keeps
  returning what it returned at the time of unsubscribing.
\<close>

theorem unsubscribe_stops_mutation:
  assumes "\<not> subscribed w"
  shows "store_value
           (announce_all later (fst (subscribe cb w) (announce_all es (snd (subscribe cb w))))) =
         store_value (announce_all es (snd (subscribe cb w)))"
proof -
  let ?w2 = "announce_all es (snd (subscribe cb w))"
  let ?w3 = "fst (subscribe cb w) ?w2"
  from assms have "listeners ?w2 = listeners w @ [(''eip6963:announceProvider'', closures w, cb)]"
    by (simp add: announce_all_listeners subscribe_listeners)
  with assms have "listeners ?w3 = listeners w"
    by (simp add: subscribe_unsubscribe removeEventListener_def filter_unsubscribed subscribed_def)
  with assms have "\<not> subscribed ?w3"
    by (simp add: subscribed_def)
  then have "announce_all later ?w3 = ?w3"
    by (rule announce_all_unsubscribed)
  then show ?thesis
    by (simp add: store_value_def subscribe_unsubscribe removeEventListener_def)
qed

theorem unsubscribe_stops_mutation_witness:
  "\<not> subscribed (initial :: unit page) \<and>
   store_value
     (announce_all [announcement ''2'' ''B'' rejecting, announcement ''3'' ''C'' rejecting]
        (fst (subscribe 0 initial)
           (announce_all [announcement ''1'' ''A'' rejecting] (snd (subscribe 0 initial))))) =
     [detail (announcement ''1'' ''A'' rejecting)]"
  using unsubscribe_stops_mutation [of initial
      "[announcement ''2'' ''B'' rejecting, announcement ''3'' ''C'' rejecting]" 0
      "[announcement ''1'' ''A'' rejecting]"]
  by (simp add: subscribe_def initial_def addEventListener_def dispatchEvent_def subscribed_def
      announce_all_def announce_def deliver_def onAnnouncement_def announcement_def
      store_value_def Let_def)

lemma subscribe_dispatched:
  "dispatched (snd (subscribe cb w)) = dispatched w @ [''eip6963:requestProvider'']"
  by (simp add: subscribe_def Let_def addEventListener_def dispatchEvent_def)

lemma step_dispatched:
  "dispatched (step a w) =
     dispatched w @ replicate (subscriptions [a]) ''eip6963:requestProvider''"
  by (cases a) (simp_all add: subscribe_dispatched removeEventListener_def announce_dispatched)

lemma subscriptions_Cons: "subscriptions (a # acts) = subscriptions [a] + subscriptions acts"
  by (cases a) simp_all

lemma run_dispatched:
  "dispatched (run acts w) =
     dispatched w @ replicate (subscriptions acts) ''eip6963:requestProvider''"
proof (induction acts arbitrary: w)
  case Nil
  then show ?case by (simp add: run_def)
next
  case (Cons a acts)
  have "run (a # acts) w = run acts (step a w)"
    by (simp add: run_def)
  with Cons [of "step a w"] show ?case
    by (simp add: step_dispatched subscriptions_Cons [of a acts] replicate_add)
qed

text \<open>
  Claim C4. A call of \<open>store.subscribe\<close> dispatches the request broadcast
  \<open>eip6963:requestProvider\<close> exactly once; nothing else the store does dispatches an
  event, so after any sequence of actions the broadcasts are as many as the
  subscriptions.
\<close>

theorem subscribe_requests_once:
  "dispatched (snd (subscribe cb w)) = dispatched w @ [''eip6963:requestProvider''] \<and>
   dispatched (run acts initial) = replicate (subscriptions acts) ''eip6963:requestProvider''"
  by (simp add: subscribe_dispatched run_dispatched) (simp add: initial_def)

theorem subscribe_requests_once_witness:
  "dispatched (run [Subscribe 0, Announce (announcement ''1'' ''A'' rejecting),
                    Unsubscribe (0, 0), Subscribe 0] initial) =
     [''eip6963:requestProvider'', ''eip6963:requestProvider'']"
  using subscribe_requests_once [of 0 "initial :: unit page"
      "[Subscribe 0, Announce (announcement ''1'' ''A'' rejecting), Unsubscribe (0, 0), Subscribe 0]"]
  by (simp add: numeral_2_eq_2)

lemma find_snoc:
  "find P (xs @ [y]) = (case find P xs of None \<Rightarrow> (if P y then Some y else None) | Some x \<Rightarrow> Some x)"
  by (induction xs) simp_all

lemma find_unseen: "u \<notin> set (uuids ps) \<Longrightarrow> find (\<lambda>p. uuid (info p) = u) ps = None"
  by (auto simp: find_None_iff uuids_def)

lemma find_seen: "u \<in> set (uuids ps) \<Longrightarrow> \<exists>p. find (\<lambda>p. uuid (info p) = u) ps = Some p"
  by (cases "find (\<lambda>p. uuid (info p) = u) ps") (auto simp: find_None_iff uuids_def)

lemma find_announce_all:
  "subscribed w \<Longrightarrow>
   find (\<lambda>p. uuid (info p) = u) (providers (announce_all es w)) =
     (case find (\<lambda>p. uuid (info p) = u) (providers w) of
        None \<Rightarrow> map_option detail (find (\<lambda>e. uuid (info (detail e)) = u) es)
      | Some p \<Rightarrow> Some p)"
proof (induction es arbitrary: w)
  case Nil
  then show ?case by (simp add: announce_all_def split: option.split)
next
  case (Cons e es)
  have step: "announce_all (e # es) w = announce_all es (announce e w)"
    by (simp add: announce_all_def)
  from Cons.prems have sub: "subscribed (announce e w)"
    by (simp add: announce_subscribed)
  show ?case
  proof (cases "uuid (info (detail e)) \<in> set (uuids (providers w))")
    case True
    show ?thesis
    proof (cases "uuid (info (detail e)) = u")
      case same: True
      with True obtain p where "find (\<lambda>p. uuid (info p) = u) (providers w) = Some p"
        using find_seen by blast
      with True Cons.IH [OF sub] show ?thesis
        by (simp add: step announce_seen)
    next
      case False
      with True Cons.IH [OF sub] show ?thesis
        by (simp add: step announce_seen split: option.split)
    qed
  next
    case False
    with Cons.prems have new: "providers (announce e w) = providers w @ [detail e]"
      by (simp add: announce_providers)
    show ?thesis
    proof (cases "uuid (info (detail e)) = u")
      case True
      with False have "find (\<lambda>p. uuid (info p) = u) (providers w) = None"
        by (simp add: find_unseen)
      with True Cons.IH [OF sub] show ?thesis
        by (simp add: step new find_snoc)
    next
      case False
      with Cons.IH [OF sub] show ?thesis
        by (simp add: step new find_snoc split: option.split)
    qed
  qed
qed

lemma providers_announce_all:
  "subscribed w \<Longrightarrow>
   providers (announce_all es w) =
     providers w @
     first_announced (filter (\<lambda>e. uuid (info (detail e)) \<notin> set (uuids (providers w))) es)"
proof (induction es arbitrary: w)
  case Nil
  then show ?case by (simp add: announce_all_def)
next
  case (Cons e es)
  have step: "announce_all (e # es) w = announce_all es (announce e w)"
    by (simp add: announce_all_def)
  from Cons.prems have sub: "subscribed (announce e w)"
    by (simp add: announce_subscribed)
  show ?case
  proof (cases "uuid (info (detail e)) \<in> set (uuids (providers w))")
    case True
    with Cons.IH [OF sub] show ?thesis
      by (simp add: step announce_seen)
  next
    case False
    with Cons.prems have "providers (announce e w) = providers w @ [detail e]"
      by (simp add: announce_providers)
    with False Cons.IH [OF sub] show ?thesis
      by (simp add: step uuids_snoc conj_commute)
  qed
qed

lemma announce_all_snoc: "announce_all (es @ [e]) w = announce e (announce_all es w)"
  by (simp add: announce_all_def)

lemma set_uuids_announce_all:
  "subscribed w \<Longrightarrow> providers w = [] \<Longrightarrow>
   set (uuids (providers (announce_all es w))) = set (map (\<lambda>e. uuid (info (detail e))) es)"
  by (simp add: uuids_announce_all uuids_Nil set_first_seen)

lemma distinct_uuids_announce_all:
  "subscribed w \<Longrightarrow> providers w = [] \<Longrightarrow> distinct (uuids (providers (announce_all es w)))"
  by (simp add: uuids_announce_all uuids_Nil distinct_first_seen)

text \<open>
  Claim C6. First announcement wins. From the empty collection, with a listener
  subscribed, the collection is exactly the details of the announcements that were the
  first of their uuid, in order, so it holds one entry for each uuid and that entry is
  the info and provider pair of the first announcement of the uuid. An announcement
  whose uuid was announced before is ignored entirely: the whole page is as if it had
  not been delivered. An announcement whose uuid was not announced before adds its
  detail, whatever its walletId, name and icon are. In the example the second
  announcement of uuid 1 has another name and another provider and is ignored, and the
  announcement of uuid 2 shares walletId, name and icon with the first and gets its own
  entry.
\<close>

theorem first_announcement_wins:
  assumes "subscribed w" and "providers w = []"
  shows "store_value (announce_all es w) = first_announced es \<and>
         distinct (uuids (store_value (announce_all es w))) \<and>
         find (\<lambda>p. uuid (info p) = u) (store_value (announce_all es w)) =
           map_option detail (find (\<lambda>e. uuid (info (detail e)) = u) es) \<and>
         (uuid (info (detail e)) \<in> set (map (\<lambda>e. uuid (info (detail e))) es) \<longrightarrow>
            announce_all (es @ [e]) w = announce_all es w) \<and>
         (uuid (info (detail e)) \<notin> set (map (\<lambda>e. uuid (info (detail e))) es) \<longrightarrow>
            store_value (announce_all (es @ [e]) w) = store_value (announce_all es w) @ [detail e])"
proof -
  from assms have whole: "store_value (announce_all es w) = first_announced es"
    by (simp add: store_value_def providers_announce_all uuids_Nil)
  from assms have one: "distinct (uuids (store_value (announce_all es w)))"
    by (simp add: store_value_def distinct_uuids_announce_all)
  from assms have first: "find (\<lambda>p. uuid (info p) = u) (store_value (announce_all es w)) =
      map_option detail (find (\<lambda>e. uuid (info (detail e)) = u) es)"
    by (simp add: store_value_def find_announce_all)
  from assms have seen: "set (uuids (providers (announce_all es w))) =
      set (map (\<lambda>e. uuid (info (detail e))) es)"
    by (rule set_uuids_announce_all)
  have later: "announce_all (es @ [e]) w = announce_all es w"
    if "uuid (info (detail e)) \<in> set (map (\<lambda>e. uuid (info (detail e))) es)"
    using that seen by (simp only: announce_all_snoc announce_seen)
  from assms have sub: "subscribed (announce_all es w)"
    by (simp add: subscribed_def announce_all_listeners)
  have new: "store_value (announce_all (es @ [e]) w) = store_value (announce_all es w) @ [detail e]"
    if "uuid (info (detail e)) \<notin> set (map (\<lambda>e. uuid (info (detail e))) es)"
    using that seen sub by (simp only: announce_all_snoc store_value_def announce_providers) simp
  from whole one first later new show ?thesis
    by blast
qed

theorem first_announcement_wins_witness:
  "subscribed (snd (subscribe 0 initial)) \<and> providers (snd (subscribe 0 initial)) = [] \<and>
   store_value
     (announce_all [announcement ''1'' ''A'' rejecting, announcement ''1'' ''B'' (answering JNull),
                    announcement ''2'' ''A'' rejecting]
        (snd (subscribe 0 initial))) =
     [detail (announcement ''1'' ''A'' rejecting), detail (announcement ''2'' ''A'' rejecting)] \<and>
   find (\<lambda>p. uuid (info p) = ''1'')
     (store_value
        (announce_all [announcement ''1'' ''A'' rejecting, announcement ''1'' ''B'' (answering JNull),
                       announcement ''2'' ''A'' rejecting]
           (snd (subscribe 0 initial)))) =
     Some (detail (announcement ''1'' ''A'' rejecting)) \<and>
   uuid (info (detail (announcement ''2'' ''C'' (answering JNull)))) \<in>
     set (map (\<lambda>e. uuid (info (detail e)))
       [announcement ''1'' ''A'' rejecting, announcement ''1'' ''B'' (answering JNull),
        announcement ''2'' ''A'' rejecting]) \<and>
   announce_all
     ([announcement ''1'' ''A'' rejecting, announcement ''1'' ''B'' (answering JNull),
       announcement ''2'' ''A'' rejecting] @ [announcement ''2'' ''C'' (answering JNull)])
     (snd (subscribe 0 initial)) =
   announce_all [announcement ''1'' ''A'' rejecting, announcement ''1'' ''B'' (answering JNull),
                 announcement ''2'' ''A'' rejecting]
     (snd (subscribe 0 initial))"
  using first_announcement_wins [of "snd (subscribe 0 initial)"
      "[announcement ''1'' ''A'' rejecting, announcement ''1'' ''B'' (answering JNull),
        announcement ''2'' ''A'' rejecting]" "''1''" "announcement ''2'' ''C'' (answering JNull)"]
  by (simp add: subscribe_def initial_def addEventListener_def dispatchEvent_def subscribed_def
      announce_all_def announce_def deliver_def onAnnouncement_def announcement_def
      store_value_def Let_def)

lemma announce_distinct:
  "distinct (uuids (providers w)) \<Longrightarrow> distinct (uuids (providers (announce e w)))"
  by (simp add: announce_providers uuids_append) (simp add: uuids_def)

lemma subscribe_providers: "providers (snd (subscribe cb w)) = providers w"
  by (simp add: subscribe_def Let_def addEventListener_def dispatchEvent_def)

lemma step_distinct:
  "distinct (uuids (providers w)) \<Longrightarrow> distinct (uuids (providers (step a w)))"
  by (cases a) (simp_all add: subscribe_providers removeEventListener_def announce_distinct)

lemma run_distinct:
  "distinct (uuids (providers w)) \<Longrightarrow> distinct (uuids (providers (run acts w)))"
proof (induction acts arbitrary: w)
  case Nil
  then show ?case by (simp add: run_def)
next
  case (Cons a acts)
  have "run (a # acts) w = run acts (step a w)"
    by (simp add: run_def)
  with Cons.IH [OF step_distinct [OF Cons.prems]] show ?case
    by simp
qed

text \<open>
  Claim C7. The uuids of the collection are pairwise distinct: every step of the store
  (a subscription, an unsubscription, an announcement) keeps them so, and from the
  empty collection of module load they are so after every sequence of steps.
\<close>

theorem uuids_unique:
  "(distinct (uuids (providers w)) \<longrightarrow> distinct (uuids (providers (step a w)))) \<and>
   distinct (uuids (providers (run acts initial)))"
proof -
  have "distinct (uuids (providers (initial :: 'b page)))"
    by (simp add: initial_def uuids_def)
  then have "distinct (uuids (providers (run acts (initial :: 'b page))))"
    by (rule run_distinct)
  then show ?thesis
    by (simp add: step_distinct)
qed

theorem uuids_unique_witness:
  "distinct (uuids (providers (snd (subscribe 0 (initial :: unit page))))) \<and>
   distinct (uuids (providers
     (step (Announce (announcement ''1'' ''A'' rejecting)) (snd (subscribe 0 initial))))) \<and>
   distinct (uuids (providers
     (run [Subscribe 0, Announce (announcement ''1'' ''A'' rejecting), Subscribe 1,
           Announce (announcement ''1'' ''B'' rejecting), Unsubscribe (0, 0),
           Announce (announcement ''2'' ''A'' rejecting)] initial)))"
  using uuids_unique [of "snd (subscribe 0 (initial :: unit page))"
      "Announce (announcement ''1'' ''A'' rejecting)"
      "[Subscribe 0, Announce (announcement ''1'' ''A'' rejecting), Subscribe 1,
        Announce (announcement ''1'' ''B'' rejecting), Unsubscribe (0, 0),
        Announce (announcement ''2'' ''A'' rejecting)]"]
  by (simp add: subscribe_def initial_def addEventListener_def dispatchEvent_def uuids_def Let_def)

lemma step_extends: "\<exists>qs. providers (step a w) = providers w @ qs"
  by (cases a) (simp_all add: subscribe_providers removeEventListener_def announce_providers)

lemma run_extends: "\<exists>qs. providers (run acts w) = providers w @ qs"
proof (induction acts arbitrary: w)
  case Nil
  then show ?case by (simp add: run_def)
next
  case (Cons a acts)
  have "run (a # acts) w = run acts (step a w)"
    by (simp add: run_def)
  moreover obtain qs where "providers (step a w) = providers w @ qs"
    using step_extends by blast
  moreover obtain rs where "providers (run acts (step a w)) = providers (step a w) @ rs"
    using Cons by blast
  ultimately show ?case by simp
qed

text \<open>
  Claim C8. Append-only. After an announcement the collection is the collection before
  it, or the collection before it with the announced entry added at the end; and over
  any sequence of steps the entries the collection held stay in place, unchanged and in
  order, at the front of the collection.
\<close>

theorem append_only:
  "(store_value (announce e w) = store_value w \<or>
    store_value (announce e w) = store_value w @ [detail e]) \<and>
   take (length (store_value w)) (store_value (run acts w)) = store_value w"
proof -
  obtain qs where "providers (run acts w) = providers w @ qs"
    using run_extends by blast
  then show ?thesis
    by (simp add: store_value_def announce_providers)
qed

theorem append_only_witness:
  "store_value (announce (announcement ''2'' ''B'' rejecting)
     (announce (announcement ''1'' ''A'' rejecting) (snd (subscribe 0 initial)))) =
   store_value (announce (announcement ''1'' ''A'' rejecting) (snd (subscribe 0 initial))) @
     [detail (announcement ''2'' ''B'' rejecting)] \<and>
   take 1 (store_value
     (run [Announce (announcement ''2'' ''B'' rejecting), Announce (announcement ''1'' ''C'' rejecting)]
        (announce (announcement ''1'' ''A'' rejecting) (snd (subscribe 0 initial))))) =
     [detail (announcement ''1'' ''A'' rejecting)]"
  using append_only [of "announcement ''2'' ''B'' rejecting"
      "announce (announcement ''1'' ''A'' rejecting) (snd (subscribe 0 initial))"
      "[Announce (announcement ''2'' ''B'' rejecting), Announce (announcement ''1'' ''C'' rejecting)]"]
  by (simp add: subscribe_def initial_def addEventListener_def dispatchEvent_def
      announce_def deliver_def onAnnouncement_def announcement_def run_def
      store_value_def Let_def)

lemma onAnnouncement_invoked:
  "invoked (onAnnouncement cb e w) =
     invoked w @ (if uuid (info (detail e)) \<in> set (uuids (providers w)) then [] else [cb])"
  by (simp add: onAnnouncement_seen onAnnouncement_new)

lemma onAnnouncement_providers:
  "providers (onAnnouncement cb e w) =
     providers w @ (if uuid (info (detail e)) \<in> set (uuids (providers w)) then [] else [detail e])"
  by (simp add: onAnnouncement_seen onAnnouncement_new)

text \<open>
  Claim C10, amended. A run of the listener calls its callback once when it appends the
  announced entry and not at all otherwise; an announcement of a uuid already present
  calls no callback; every announcement adds as many callback calls as it adds entries;
  and the callback that is called when an entry is appended is the one of the
  earliest-registered live listener, once, so for the only live subscription every
  appending announcement calls its callback exactly once.
\<close>

theorem notified_iff_changed:
  "invoked (onAnnouncement cb e w) =
     invoked w @ (if providers (onAnnouncement cb e w) = providers w then [] else [cb]) \<and>
   (uuid (info (detail e)) \<in> set (uuids (providers w)) \<longrightarrow> invoked (announce e w) = invoked w) \<and>
   length (invoked (announce e w)) + length (providers w) =
     length (invoked w) + length (providers (announce e w)) \<and>
   (find (\<lambda>r. fst r = ''eip6963:announceProvider'') (listeners w) =
      Some (''eip6963:announceProvider'', i, cb) \<longrightarrow>
      invoked (announce e w) =
        invoked w @ (if uuid (info (detail e)) \<in> set (uuids (providers w)) then [] else [cb]) \<and>
      store_value (announce e w) =
        store_value w @
        (if uuid (info (detail e)) \<in> set (uuids (providers w)) then [] else [detail e]))"
proof -
  have handler: "invoked (onAnnouncement cb e w) =
      invoked w @ (if providers (onAnnouncement cb e w) = providers w then [] else [cb])"
    by (simp add: onAnnouncement_invoked onAnnouncement_providers)
  have present: "invoked (announce e w) = invoked w"
    if "uuid (info (detail e)) \<in> set (uuids (providers w))"
    using that by (simp add: announce_seen)
  have counted: "length (invoked (announce e w)) + length (providers w) =
      length (invoked w) + length (providers (announce e w))"
    by (cases "find (\<lambda>r. fst r = ''eip6963:announceProvider'') (listeners w)")
       (simp_all add: announce_eq onAnnouncement_invoked onAnnouncement_providers)
  have earliest: "invoked (announce e w) =
        invoked w @ (if uuid (info (detail e)) \<in> set (uuids (providers w)) then [] else [cb]) \<and>
      store_value (announce e w) =
        store_value w @
        (if uuid (info (detail e)) \<in> set (uuids (providers w)) then [] else [detail e])"
    if "find (\<lambda>r. fst r = ''eip6963:announceProvider'') (listeners w) =
          Some (''eip6963:announceProvider'', i, cb)"
    using that
    by (simp add: announce_eq store_value_def onAnnouncement_invoked onAnnouncement_providers)
  from handler present counted earliest show ?thesis
    by blast
qed

theorem notified_iff_changed_witness:
  "find (\<lambda>r. fst r = ''eip6963:announceProvider'')
     (listeners (run [Subscribe 5, Subscribe 7] (initial :: unit page))) =
     Some (''eip6963:announceProvider'', 0, 5) \<and>
   invoked (announce (announcement ''1'' ''A'' rejecting) (run [Subscribe 5, Subscribe 7] initial)) =
     [5] \<and>
   store_value (announce (announcement ''1'' ''A'' rejecting) (run [Subscribe 5, Subscribe 7] initial)) =
     [detail (announcement ''1'' ''A'' rejecting)] \<and>
   uuid (info (detail (announcement ''1'' ''B'' rejecting))) \<in>
     set (uuids (providers
       (announce (announcement ''1'' ''A'' rejecting) (run [Subscribe 5, Subscribe 7] initial)))) \<and>
   invoked (announce (announcement ''1'' ''B'' rejecting)
     (announce (announcement ''1'' ''A'' rejecting) (run [Subscribe 5, Subscribe 7] initial))) = [5]"
  using notified_iff_changed [of 5 "announcement ''1'' ''A'' rejecting"
      "run [Subscribe 5, Subscribe 7] (initial :: unit page)" 0]
    notified_iff_changed [of 5 "announcement ''1'' ''B'' rejecting"
      "announce (announcement ''1'' ''A'' rejecting)
         (run [Subscribe 5, Subscribe 7] (initial :: unit page))" 0]
  by (simp add: run_def subscribe_def initial_def addEventListener_def dispatchEvent_def
      announce_def deliver_def onAnnouncement_def announcement_def
      store_value_def uuids_def Let_def)

text \<open>
  Claim C10 as first stated, for every subscriber callback, does not hold: with two
  live subscriptions, callbacks 0 and 1, an announcement of a new uuid appends
  its entry and calls callback 0 only: the listener of the second subscription finds
  the uuid already present and returns before its call.
\<close>

theorem notified_iff_changed_counterexample:
  "listeners (run [Subscribe 0, Subscribe 1] (initial :: unit page)) =
     [(''eip6963:announceProvider'', 0, 0), (''eip6963:announceProvider'', 1, 1)] \<and>
   store_value (run [Subscribe 0, Subscribe 1] (initial :: unit page)) = [] \<and>
   store_value (run [Subscribe 0, Subscribe 1, Announce (announcement ''1'' ''A'' rejecting)] initial) =
     [detail (announcement ''1'' ''A'' rejecting)] \<and>
   invoked (run [Subscribe 0, Subscribe 1, Announce (announcement ''1'' ''A'' rejecting)] initial) =
     [0]"
  by (simp add: run_def subscribe_def initial_def addEventListener_def dispatchEvent_def
      announce_def deliver_def onAnnouncement_def announcement_def store_value_def Let_def)

section \<open>Properties of the component\<close>

lemma handleConnect_fulfilled: "fst (handleConnect d a) = Fulfilled ()"
  by (simp add: handleConnect_def Let_def split: prod.split)

lemma signMessages_fulfilled: "fst (signMessages a) = Fulfilled ()"
  by (simp add: signMessages_def Let_def split: prod.split bool.split option.split)

lemma handleConnect_rejected:
  "request (provider d) \<lparr>method' = ''eth_requestAccounts'', params = None\<rparr> (wallet a) =
     (Rejected e, x) \<Longrightarrow>
   handleConnect d a = (Fulfilled (), a\<lparr>console := console a @ [ConsoleError [e]], wallet := x\<rparr>)"
  by (simp add: handleConnect_def catch_console_error_def)

lemma signMessages_rejected:
  assumes "isConnected a" and "selectedWallet a = Some sw"
    and "request (provider sw) (produceTypedDataPayload (userAccount a)) (wallet a) = (Rejected e, x)"
  shows "ConsoleError [e] \<in> set (console (snd (signMessages a)))"
  using assms
  by (simp add: signMessages_def catch_console_error_def Let_def split: prod.split settled.split)

text \<open>
  Claim C9. Connection atomicity. When the \<open>eth_requestAccounts\<close> request of
  \<open>handleConnect\<close> is rejected, or resolves to \<open>undefined\<close>, to an empty array or to an
  array whose first element is falsy, \<open>selectedWallet\<close> and \<open>userAccount\<close> are what they
  were before.
\<close>

theorem handleConnect_atomic:
  assumes "request (provider d) \<lparr>method' = ''eth_requestAccounts'', params = None\<rparr> (wallet a) =
             (r, x)"
    and "(\<exists>e. r = Rejected e) \<or> r = Fulfilled JUndefined \<or> r = Fulfilled (JArr []) \<or>
         (\<exists>v vs. r = Fulfilled (JArr (v # vs)) \<and> \<not> truthy v)"
  shows "selectedWallet (snd (handleConnect d a)) = selectedWallet a \<and>
         userAccount (snd (handleConnect d a)) = userAccount a"
  using assms by (auto simp: handleConnect_def catch_console_error_def)

theorem handleConnect_atomic_witness:
  "request (provider (detail (announcement ''1'' ''A'' rejecting)))
     \<lparr>method' = ''eth_requestAccounts'', params = None\<rparr> (wallet (mounted ())) =
     (Rejected (JStr ''denied''), ()) \<and>
   selectedWallet (snd (handleConnect (detail (announcement ''1'' ''A'' rejecting)) (mounted ()))) = None \<and>
   userAccount (snd (handleConnect (detail (announcement ''1'' ''A'' rejecting)) (mounted ()))) = JStr []"
  using handleConnect_atomic [of "detail (announcement ''1'' ''A'' rejecting)" "mounted ()"
      "Rejected (JStr ''denied'')" "()"]
  by (simp add: announcement_def rejecting_def mounted_def)

text \<open>
  Claim C5. The rejected request of the interval function is not caught. Connected to
  a wallet that rejects every request, the function the effect installs returns a
  promise rejected with the wallet's reason and logs nothing, while \<open>handleConnect\<close> on
  the same wallet logs the reason and returns a fulfilled promise. Connected to a
  wallet that answers \<open>eth_chainId\<close> and rejects \<open>wallet_getCapabilities\<close>, the function
  again returns a rejected promise and logs nothing.
\<close>

theorem interval_rejection_uncaught:
  "map_option (\<lambda>f. f (connected (announcement ''1'' ''A'' rejecting)))
     (useEffect_interval (connected (announcement ''1'' ''A'' rejecting))) =
     Some (Rejected (JStr ''denied''), connected (announcement ''1'' ''A'' rejecting)) \<and>
   handleConnect (detail (announcement ''1'' ''A'' rejecting))
     (connected (announcement ''1'' ''A'' rejecting)) =
     (Fulfilled (),
      (connected (announcement ''1'' ''A'' rejecting))
        \<lparr>console := [ConsoleError [JStr ''denied'']]\<rparr>) \<and>
   map_option (\<lambda>f. f (connected (announcement ''1'' ''A'' chain_only)))
     (useEffect_interval (connected (announcement ''1'' ''A'' chain_only))) =
     Some (Rejected (JStr ''unsupported''), connected (announcement ''1'' ''A'' chain_only))"
  by (simp add: useEffect_interval_def isConnected_def connected_def announcement_def
      rejecting_def chain_only_def interval_callback_def handleConnect_def
      catch_console_error_def)

end
